theory Spec2Isabelle
  imports Main "HOL-Library.Product_Lexorder"
begin

section \<open>Points and ranges of the host editor\<close>

text \<open>
  A buffer or screen position is a pair (row, column).  The host compares points by row
  first and by column second, which is the lexicographic order on pairs.
\<close>

type_synonym Point = "int \<times> int"

abbreviation row :: "Point \<Rightarrow> int" where "row \<equiv> fst"
abbreviation column :: "Point \<Rightarrow> int" where "column \<equiv> snd"

datatype Range = Range (rstart: Point) (rend: Point)

text \<open>\<open>range.containsPoint(point)\<close> of the host: both ends are inclusive.\<close>

definition containsPoint :: "Range \<Rightarrow> Point \<Rightarrow> bool" where
  "containsPoint r p \<longleftrightarrow> rstart r \<le> p \<and> p \<le> rend r"

text \<open>\<open>range.union(other)\<close> of the host: the earlier start and the later end.\<close>

definition range_union :: "Range \<Rightarrow> Range \<Rightarrow> Range" where
  "range_union r other =
     Range (if rstart r < rstart other then rstart r else rstart other)
           (if rend r > rend other then rend r else rend other)"

section \<open>Providers and the fetch\<close>

record Datatip =
  dt_component :: string
  dt_range :: Range
  dt_pinnable :: "bool option"

datatype FetchError = ProviderRejected string

text \<open>
  A provider's \<open>datatip(editor, position)\<close> returns a promise: it is rejected (\<open>Inl\<close>),
  or resolved with a datatip or with nothing.
\<close>

record DatatipProvider =
  providerName :: "string option"
  inclusionPriority :: int
  validForScope :: "string \<Rightarrow> bool"
  datatip :: "Point \<Rightarrow> FetchError + Datatip option"

datatype DatatipAction = PIN

record RenderedProvider =
  rp_key :: string
  rp_action :: "DatatipAction option"
  rp_datatip :: Datatip

record CombinedResult =
  data_range :: "Range option"
  data_renderedProviders :: "RenderedProvider list"

definition getProviderName :: "DatatipProvider \<Rightarrow> string" where
  "getProviderName provider =
     (case providerName provider of None \<Rightarrow> ''unknown'' | Some n \<Rightarrow> n)"

definition filterProvidersByScopeName ::
  "DatatipProvider list \<Rightarrow> string \<Rightarrow> DatatipProvider list" where
  "filterProvidersByScopeName providers scopeName =
     sort_key inclusionPriority
       (filter (\<lambda>provider. inclusionPriority provider > 0 \<and> validForScope provider scopeName)
          providers)"

text \<open>
  The callback that \<open>fetchDatatip\<close> maps over the providers, up to its own promise:
  the provider's name with its datatip, nothing when the provider has no datatip.
\<close>

definition queryProvider ::
  "Point \<Rightarrow> DatatipProvider \<Rightarrow> FetchError + (string \<times> Datatip) option" where
  "queryProvider position provider =
     (case datatip provider position of
        Inl e \<Rightarrow> Inl e
      | Inr None \<Rightarrow> Inr None
      | Inr (Some d) \<Rightarrow> Inr (Some (getProviderName provider, d)))"

text \<open>\<open>Promise.all\<close>: rejected as soon as one of the promises is.\<close>

fun promiseAll :: "('e + 'a) list \<Rightarrow> 'e + 'a list" where
  "promiseAll [] = Inr []"
| "promiseAll (Inl e # ps) = Inl e"
| "promiseAll (Inr x # ps) =
     (case promiseAll ps of Inl e \<Rightarrow> Inl e | Inr xs \<Rightarrow> Inr (x # xs))"

text \<open>
  Modelled from the spec: \<open>arrayCompact\<close> (commons-node/collection) is not among the
  sources.  The spec discards the providers that return no content.
\<close>

fun arrayCompact :: "'a option list \<Rightarrow> 'a list" where
  "arrayCompact [] = []"
| "arrayCompact (None # xs) = arrayCompact xs"
| "arrayCompact (Some x # xs) = x # arrayCompact xs"

text \<open>The update of \<open>combinedRange\<close> that each callback with a datatip makes.\<close>

fun addRange :: "Range option \<Rightarrow> Range \<Rightarrow> Range option" where
  "addRange None r = Some r"
| "addRange (Some combinedRange) r = Some (range_union combinedRange r)"

definition renderProvider :: "string \<times> Datatip \<Rightarrow> RenderedProvider" where
  "renderProvider nd =
     \<lparr> rp_key = fst nd,
       rp_action = (if dt_pinnable (snd nd) \<noteq> Some False then Some PIN else None),
       rp_datatip = snd nd \<rparr>"

definition fetchDatatip ::
  "string \<Rightarrow> Point \<Rightarrow> DatatipProvider list \<Rightarrow> FetchError + CombinedResult option" where
  "fetchDatatip scopeName position allProviders =
     (let providers = filterProvidersByScopeName allProviders scopeName in
      if length providers = 0 then Inr None
      else
        (case promiseAll (map (queryProvider position) providers) of
           Inl e \<Rightarrow> Inl e
         | Inr settled \<Rightarrow>
             (let tips = arrayCompact settled;
                  combinedRange = foldl addRange None (map (\<lambda>nd. dt_range (snd nd)) tips);
                  renderedProviders = map renderProvider tips
              in if length renderedProviders = 0 then Inr None
                 else Inr (Some \<lparr> data_range = combinedRange,
                                  data_renderedProviders = renderedProviders \<rparr>))))"

text \<open>
  The smallest range covering all the ranges of a list, in the spec's words: it starts at
  the least start and ends at the greatest end.
\<close>

definition covers :: "Range \<Rightarrow> Range \<Rightarrow> bool" where
  "covers outer inner \<longleftrightarrow> rstart outer \<le> rstart inner \<and> rend inner \<le> rend outer"

definition smallestCover :: "Range list \<Rightarrow> Range" where
  "smallestCover rs = Range (Min (set (map rstart rs))) (Max (set (map rend rs)))"

text \<open>
  The datatips that the queried providers resolve with, in the order of the query, and
  the condition that none of the queried providers rejects.
\<close>

definition contents :: "Point \<Rightarrow> DatatipProvider list \<Rightarrow> Datatip list" where
  "contents position providers =
     concat (map (\<lambda>p. case datatip p position of Inr (Some d) \<Rightarrow> [d] | _ \<Rightarrow> []) providers)"

definition returnedDatatips :: "string \<Rightarrow> Point \<Rightarrow> DatatipProvider list \<Rightarrow> Datatip list" where
  "returnedDatatips scopeName position allProviders =
     contents position (filterProvidersByScopeName allProviders scopeName)"

definition noRejection :: "string \<Rightarrow> Point \<Rightarrow> DatatipProvider list \<Rightarrow> bool" where
  "noRejection scopeName position allProviders \<longleftrightarrow>
     (\<forall>p \<in> set (filterProvidersByScopeName allProviders scopeName).
        \<not> isl (datatip p position))"

section \<open>What the manager reads from the editor and from the window\<close>

record MouseEvent =
  clientX :: int
  clientY :: int

record PixelPosition =
  px_left :: int
  px_top :: int

record TextComponent =
  screenPositionForMouseEvent :: "MouseEvent \<Rightarrow> Point"
  pixelPositionForMouseEvent :: "MouseEvent \<Rightarrow> PixelPosition"
  pixelPositionForScreenPosition :: "Point \<Rightarrow> PixelPosition"

record TextEditor =
  editorId :: nat
  viewComponent :: "TextComponent option"
  defaultCharWidth :: int
  bufferPositionForScreenPosition :: "Point \<Rightarrow> Point"

text \<open>
  The readings a callback takes at the moment it runs: \<open>window.performance.now()\<close>
  (in milliseconds), the editor's cursor position and the workspace's active editor.
\<close>

record World =
  now :: int
  cursorScreenPosition :: Point
  activeTextEditor :: "nat option"

definition getBufferPosition :: "TextEditor \<Rightarrow> MouseEvent option \<Rightarrow> Point option" where
  "getBufferPosition editor event =
     (case event of
        None \<Rightarrow> None
      | Some e \<Rightarrow>
          (case viewComponent editor of
             None \<Rightarrow> None
           | Some text \<Rightarrow>
               (let screenPosition = screenPositionForMouseEvent text e;
                    pixelPosition = pixelPositionForMouseEvent text e;
                    pixelPositionFromScreenPosition =
                      pixelPositionForScreenPosition text screenPosition;
                    horizontalDistance =
                      px_left pixelPosition - px_left pixelPositionFromScreenPosition
                in if px_left pixelPosition < 0 \<or> horizontalDistance > defaultCharWidth editor
                   then None
                   else Some (bufferPositionForScreenPosition editor screenPosition))))"

section \<open>The hover state machine of one editor\<close>

datatype State = HIDDEN | FETCHING | VISIBLE

text \<open>
  The two closures that \<open>_startFetching\<close> is called with: the buffer position of the
  last mouse move, and the cursor position.
\<close>

datatype GetPosition = FromLastMoveEvent | FromCursor

text \<open>
  A pinned datatip, as far as its constructor is called here: the datatip and the editor
  it is made for (the class itself is not among the sources).
\<close>

record PinnedDatatip =
  pinned_datatip :: Datatip
  pinned_editor :: nat

text \<open>
  The fields of \<open>DatatipManagerForEditor\<close> (\<open>shownRange\<close> is the field \<open>_range\<close>),
  and with them what the instance has outstanding or has put into the editor:
  \<^item> \<open>debouncePending\<close>: the timer of the debounced \<open>_startFetchingDebounce\<close> is running;
  \<^item> \<open>subscribed\<close>: \<open>_subscriptions\<close> has not been disposed;
  \<^item> \<open>inflight\<close>: the calls of \<open>_startFetching\<close> that wait for \<open>fetchDatatip\<close>, each
    with its \<open>getPosition\<close> closure and the position it fetches at;
  \<^item> \<open>liveMarkers\<close>: the markers made by \<open>renderDatatip\<close> and not destroyed, and
    \<open>nextMarker\<close> the identity of the next one;
  \<^item> \<open>elementDisplay\<close> and \<open>mounted\<close>: the style and the content of \<open>_datatipElement\<close>.
\<close>

record DatatipManagerForEditor =
  blacklistedPosition :: "Point option"
  datatipState :: State
  insideDatatip :: bool
  lastHiddenTime :: int
  lastMoveEvent :: "MouseEvent option"
  marker :: "nat option"
  pinnedDatatips :: "PinnedDatatip list"
  shownRange :: "Range option"
  debouncePending :: bool
  subscribed :: bool
  inflight :: "(GetPosition \<times> Point) list"
  liveMarkers :: "(nat \<times> Range) list"
  nextMarker :: nat
  elementDisplay :: string
  mounted :: "RenderedProvider list option"

definition newManager :: DatatipManagerForEditor where
  "newManager =
     \<lparr> blacklistedPosition = None, datatipState = HIDDEN, insideDatatip = False,
       lastHiddenTime = 0, lastMoveEvent = None, marker = None, pinnedDatatips = [],
       shownRange = None, debouncePending = False, subscribed = True, inflight = [],
       liveMarkers = [], nextMarker = 0, elementDisplay = [], mounted = None \<rparr>"

definition renderDatatip ::
  "Range \<Rightarrow> RenderedProvider list \<Rightarrow> DatatipManagerForEditor
     \<Rightarrow> nat \<times> DatatipManagerForEditor" where
  "renderDatatip r renderedProviders s =
     (nextMarker s,
      s\<lparr> liveMarkers := liveMarkers s @ [(nextMarker s, r)],
         nextMarker := Suc (nextMarker s),
         mounted := Some renderedProviders,
         elementDisplay := ''block'' \<rparr>)"

definition hideDatatip :: "World \<Rightarrow> DatatipManagerForEditor \<Rightarrow> DatatipManagerForEditor" where
  "hideDatatip w s =
     (let s1 = s\<lparr> lastHiddenTime := now w \<rparr>;
          s2 = (case marker s1 of
                  None \<Rightarrow> s1
                | Some m \<Rightarrow> s1\<lparr> liveMarkers := filter (\<lambda>lm. fst lm \<noteq> m) (liveMarkers s1),
                                marker := None \<rparr>)
      in s2\<lparr> shownRange := None, mounted := None, elementDisplay := ''none'' \<rparr>)"

definition setState ::
  "World \<Rightarrow> State \<Rightarrow> DatatipManagerForEditor \<Rightarrow> DatatipManagerForEditor" where
  "setState w newState s =
     (let oldState = datatipState s;
          s1 = s\<lparr> datatipState := newState \<rparr>;
          s2 = (if newState = HIDDEN then s1\<lparr> blacklistedPosition := None \<rparr> else s1)
      in if oldState = VISIBLE \<and> newState = HIDDEN then hideDatatip w s2 else s2)"

definition getPosition ::
  "TextEditor \<Rightarrow> World \<Rightarrow> GetPosition \<Rightarrow> DatatipManagerForEditor \<Rightarrow> Point option" where
  "getPosition editor w g s =
     (case g of
        FromLastMoveEvent \<Rightarrow> getBufferPosition editor (lastMoveEvent s)
      | FromCursor \<Rightarrow> Some (cursorScreenPosition w))"

text \<open>\<open>_startFetching\<close> up to its \<open>await\<close>.\<close>

definition startFetching ::
  "TextEditor \<Rightarrow> World \<Rightarrow> GetPosition \<Rightarrow> DatatipManagerForEditor
     \<Rightarrow> DatatipManagerForEditor" where
  "startFetching editor w g s =
     (if datatipState s \<noteq> HIDDEN then s
      else
        (case getPosition editor w g s of
           None \<Rightarrow> s
         | Some position \<Rightarrow>
             (let s1 = setState w FETCHING s
              in s1\<lparr> inflight := inflight s1 @ [(g, position)] \<rparr>)))"

text \<open>
  \<open>_startFetching\<close> from its \<open>await\<close> on, run when the promise of \<open>fetchDatatip\<close> is
  settled.  A rejection ends the function there.
\<close>

definition finishFetching ::
  "TextEditor \<Rightarrow> World \<Rightarrow> GetPosition \<Rightarrow> FetchError + CombinedResult option
     \<Rightarrow> DatatipManagerForEditor \<Rightarrow> DatatipManagerForEditor" where
  "finishFetching editor w g settled s =
     (case settled of
        Inl e \<Rightarrow> s
      | Inr None \<Rightarrow> setState w HIDDEN s
      | Inr (Some data) \<Rightarrow>
          (let s1 = (if datatipState s \<noteq> FETCHING then setState w HIDDEN s else s)
           in if (case blacklistedPosition s1 of
                    None \<Rightarrow> False
                  | Some b \<Rightarrow>
                      (case data_range data of
                         None \<Rightarrow> False
                       | Some r \<Rightarrow> containsPoint r b))
              then setState w HIDDEN s1
              else
                (case getPosition editor w g s1 of
                   None \<Rightarrow> setState w HIDDEN s1
                 | Some currentPosition \<Rightarrow>
                     (case data_range data of
                        None \<Rightarrow> setState w HIDDEN s1
                      | Some r \<Rightarrow>
                          if \<not> containsPoint r currentPosition then setState w HIDDEN s1
                          else
                            (let s2 = setState w VISIBLE s1;
                                 s3 = s2\<lparr> shownRange := Some r \<rparr>;
                                 ms = renderDatatip r (data_renderedProviders data) s3
                             in (snd ms)\<lparr> marker := Some (fst ms) \<rparr>)))))"

definition hideOrCancel ::
  "TextEditor \<Rightarrow> World \<Rightarrow> DatatipManagerForEditor \<Rightarrow> DatatipManagerForEditor" where
  "hideOrCancel editor w s =
     (if datatipState s = HIDDEN \<or> datatipState s = FETCHING
      then s\<lparr> blacklistedPosition := getBufferPosition editor (lastMoveEvent s) \<rparr>
      else setState w HIDDEN s)"

definition hideIfOutside ::
  "TextEditor \<Rightarrow> World \<Rightarrow> DatatipManagerForEditor \<Rightarrow> DatatipManagerForEditor" where
  "hideIfOutside editor w s =
     (if datatipState s \<noteq> VISIBLE then s
      else if insideDatatip s then s
      else
        (case getBufferPosition editor (lastMoveEvent s) of
           None \<Rightarrow> setState w HIDDEN s
         | Some currentPosition \<Rightarrow>
             (case shownRange s of
                None \<Rightarrow> setState w HIDDEN s
              | Some r \<Rightarrow>
                  if containsPoint r currentPosition then s else setState w HIDDEN s)))"

definition createPinnedDataTip_forEditor ::
  "DatatipManagerForEditor \<Rightarrow> string \<Rightarrow> Range \<Rightarrow> bool option \<Rightarrow> nat \<Rightarrow> PinnedDatatip" where
  "createPinnedDataTip_forEditor s component r pinnable editor =
     \<lparr> pinned_datatip = \<lparr> dt_component = component, dt_range = r, dt_pinnable = pinnable \<rparr>,
       pinned_editor = editor \<rparr>"

definition handlePinClicked ::
  "World \<Rightarrow> nat \<Rightarrow> Datatip \<Rightarrow> DatatipManagerForEditor \<Rightarrow> DatatipManagerForEditor" where
  "handlePinClicked w editor d s =
     (let s1 = setState w HIDDEN s
      in s1\<lparr> pinnedDatatips :=
               pinnedDatatips s1 @ [\<lparr> pinned_datatip = d, pinned_editor = editor \<rparr>] \<rparr>)"

definition toggleDatatip ::
  "TextEditor \<Rightarrow> World \<Rightarrow> DatatipManagerForEditor \<Rightarrow> DatatipManagerForEditor" where
  "toggleDatatip editor w s =
     (if activeTextEditor w \<noteq> Some (editorId editor) then s
      else if datatipState s = HIDDEN \<and> now w - lastHiddenTime s > 100
      then startFetching editor w FromCursor s
      else s)"

text \<open>
  \<open>dispose\<close>: the state is set to hidden and the subscriptions are disposed.  (The
  removal of \<open>_datatipElement\<close> from the document is not part of the state here.)
\<close>

definition dispose :: "World \<Rightarrow> DatatipManagerForEditor \<Rightarrow> DatatipManagerForEditor" where
  "dispose w s = (setState w HIDDEN s)\<lparr> subscribed := False \<rparr>"

subsection \<open>The debounced start of a fetch\<close>

text \<open>
  Modelled from the spec: \<open>debounce\<close> (commons-node/debounce) is not among the sources.
  The spec has continuous pointer movement reset a timer, and only the final idle position
  start a fetch: a call of the debounced function leaves one timer running, and when the
  timer fires the function given to \<open>debounce\<close> runs once.  How long the timer runs is
  left open: it fires as an event of its own.
\<close>

definition startFetchingDebounce :: "DatatipManagerForEditor \<Rightarrow> DatatipManagerForEditor" where
  "startFetchingDebounce s = s\<lparr> debouncePending := True \<rparr>"

text \<open>
  \<open>_setStartFetchingDebounce\<close>, the callback of the observed debounce delay: it makes a
  new debounced function.  Nothing stops a timer that the old one has left running.
\<close>

definition setStartFetchingDebounce :: "DatatipManagerForEditor \<Rightarrow> DatatipManagerForEditor" where
  "setStartFetchingDebounce s = s"

definition debounceFired ::
  "TextEditor \<Rightarrow> World \<Rightarrow> DatatipManagerForEditor \<Rightarrow> DatatipManagerForEditor" where
  "debounceFired editor w s =
     (if debouncePending s
      then startFetching editor w FromLastMoveEvent (s\<lparr> debouncePending := False \<rparr>)
      else s)"

subsection \<open>The callbacks of the subscriptions\<close>

datatype Node = DatatipElement | OtherNode nat

record KeyboardEvent =
  altKey :: bool
  ctrlKey :: bool
  metaKey :: bool
  shiftKey :: bool

text \<open>
  The loop of the mousedown callback over the target and its ancestors, given as the list
  from the target up to the root.
\<close>

fun reachesDatatipElement :: "Node list \<Rightarrow> bool" where
  "reachesDatatipElement [] = False"
| "reachesDatatipElement (node # parents) =
     (if node = DatatipElement then True else reachesDatatipElement parents)"

definition onMousemove ::
  "TextEditor \<Rightarrow> World \<Rightarrow> MouseEvent \<Rightarrow> DatatipManagerForEditor
     \<Rightarrow> DatatipManagerForEditor" where
  "onMousemove editor w e s =
     (let s1 = s\<lparr> lastMoveEvent := Some e \<rparr>
      in if datatipState s1 = HIDDEN then startFetchingDebounce s1
         else hideIfOutside editor w s1)"

definition onMousedown ::
  "TextEditor \<Rightarrow> World \<Rightarrow> Node list \<Rightarrow> DatatipManagerForEditor
     \<Rightarrow> DatatipManagerForEditor" where
  "onMousedown editor w targetPath s =
     (if reachesDatatipElement targetPath then s else hideOrCancel editor w s)"

definition onKeydown ::
  "TextEditor \<Rightarrow> World \<Rightarrow> KeyboardEvent \<Rightarrow> DatatipManagerForEditor
     \<Rightarrow> DatatipManagerForEditor" where
  "onKeydown editor w e s =
     (if altKey e \<or> ctrlKey e \<or> metaKey e \<or> shiftKey e then s
      else hideOrCancel editor w s)"

definition onMouseenter ::
  "TextEditor \<Rightarrow> World \<Rightarrow> DatatipManagerForEditor \<Rightarrow> DatatipManagerForEditor" where
  "onMouseenter editor w s = hideIfOutside editor w (s\<lparr> insideDatatip := True \<rparr>)"

definition onMouseleave ::
  "TextEditor \<Rightarrow> World \<Rightarrow> DatatipManagerForEditor \<Rightarrow> DatatipManagerForEditor" where
  "onMouseleave editor w s = hideIfOutside editor w (s\<lparr> insideDatatip := False \<rparr>)"

definition onDidChangeScrollTop ::
  "World \<Rightarrow> DatatipManagerForEditor \<Rightarrow> DatatipManagerForEditor" where
  "onDidChangeScrollTop w s =
     (let s1 = s\<lparr> lastMoveEvent := None \<rparr>
      in if datatipState s1 = VISIBLE then setState w HIDDEN s1 else s1)"

subsection \<open>Everything that can happen to an instance\<close>

text \<open>
  Modelled from the spec: \<open>UniversalDisposable\<close> and \<open>DatatipComponent\<close> are not among
  the sources.  The spec has no callback of a subscription fire once the subscriptions
  are torn down, so the callbacks of the subscriptions run while \<open>subscribed\<close> holds;
  and it wraps an item with a pin affordance when its content is pinnable, so
  \<open>PinClicked i\<close>, a click on the pin action of the \<open>i\<close>-th rendered provider, is there
  while the datatip is mounted and the item has the action.

  The timer of the debounce, the continuation of a fetch in flight and the pin action of
  a rendered datatip are not subscriptions.  \<open>FetchSettled i r\<close> settles the \<open>i\<close>-th
  fetch in flight with \<open>r\<close>.
\<close>

datatype Event =
    MouseMove MouseEvent
  | MouseDown "Node list"
  | KeyDown KeyboardEvent
  | MouseEnter
  | MouseLeave
  | ScrollTopChanged
  | ToggleCommand
  | DebounceDelayChanged
  | DebounceFired
  | FetchSettled nat "FetchError + CombinedResult option"
  | PinClicked nat
  | Dispose

definition isSubscription :: "Event \<Rightarrow> bool" where
  "isSubscription ev =
     (case ev of
        DebounceFired \<Rightarrow> False
      | FetchSettled i r \<Rightarrow> False
      | PinClicked i \<Rightarrow> False
      | Dispose \<Rightarrow> False
      | _ \<Rightarrow> True)"

definition step ::
  "TextEditor \<Rightarrow> World \<Rightarrow> Event \<Rightarrow> DatatipManagerForEditor \<Rightarrow> DatatipManagerForEditor" where
  "step editor w ev s =
     (case ev of
        MouseMove e \<Rightarrow> if subscribed s then onMousemove editor w e s else s
      | MouseDown targetPath \<Rightarrow> if subscribed s then onMousedown editor w targetPath s else s
      | KeyDown e \<Rightarrow> if subscribed s then onKeydown editor w e s else s
      | MouseEnter \<Rightarrow> if subscribed s then onMouseenter editor w s else s
      | MouseLeave \<Rightarrow> if subscribed s then onMouseleave editor w s else s
      | ScrollTopChanged \<Rightarrow> if subscribed s then onDidChangeScrollTop w s else s
      | ToggleCommand \<Rightarrow> if subscribed s then toggleDatatip editor w s else s
      | DebounceDelayChanged \<Rightarrow> if subscribed s then setStartFetchingDebounce s else s
      | DebounceFired \<Rightarrow> debounceFired editor w s
      | FetchSettled i settled \<Rightarrow>
          if i < length (inflight s)
          then finishFetching editor w (fst (inflight s ! i)) settled
                 (s\<lparr> inflight := take i (inflight s) @ drop (Suc i) (inflight s) \<rparr>)
          else s
      | PinClicked i \<Rightarrow>
          (case mounted s of
             None \<Rightarrow> s
           | Some renderedProviders \<Rightarrow>
               if i < length renderedProviders \<and> rp_action (renderedProviders ! i) = Some PIN
               then handlePinClicked w (editorId editor) (rp_datatip (renderedProviders ! i)) s
               else s)
      | Dispose \<Rightarrow> dispose w s)"

fun run ::
  "TextEditor \<Rightarrow> (World \<times> Event) list \<Rightarrow> DatatipManagerForEditor
     \<Rightarrow> DatatipManagerForEditor" where
  "run editor [] s = s"
| "run editor (we # rest) s = run editor rest (step editor (fst we) (snd we) s)"

section \<open>The registry of the managers\<close>

datatype Error = Error string

record DatatipManager =
  datatipProviders :: "DatatipProvider list"
  editorManagers :: "nat \<rightharpoonup> DatatipManagerForEditor"

definition newDatatipManager :: DatatipManager where
  "newDatatipManager = \<lparr> datatipProviders = [], editorManagers = Map.empty \<rparr>"

text \<open>
  The callback of \<open>observeTextEditors\<close>, and the \<open>dispose\<close> closure it makes: the
  closure disposes the instance (\<open>dispose\<close> above) and takes it out of the registry.
\<close>

definition onTextEditor :: "nat \<Rightarrow> DatatipManager \<Rightarrow> DatatipManager" where
  "onTextEditor editor reg =
     reg\<lparr> editorManagers := (editorManagers reg)(editor \<mapsto> newManager) \<rparr>"

definition onDidDestroy :: "nat \<Rightarrow> DatatipManager \<Rightarrow> DatatipManager" where
  "onDidDestroy editor reg =
     reg\<lparr> editorManagers := (editorManagers reg)(editor := None) \<rparr>"

definition addProvider :: "DatatipProvider \<Rightarrow> DatatipManager \<Rightarrow> DatatipManager" where
  "addProvider provider reg = reg\<lparr> datatipProviders := datatipProviders reg @ [provider] \<rparr>"

definition createPinnedDataTip ::
  "DatatipManager \<Rightarrow> string \<Rightarrow> Range \<Rightarrow> bool option \<Rightarrow> nat \<Rightarrow> Error + PinnedDatatip" where
  "createPinnedDataTip reg component r pinnable editor =
     (case editorManagers reg editor of
        None \<Rightarrow>
          Inl (Error (''Trying to create a pinned data tip on an editor that has '' @
                      ''no datatip manager''))
      | Some manager \<Rightarrow>
          Inr (createPinnedDataTip_forEditor manager component r pinnable editor))"

section \<open>The marker invariant\<close>

text \<open>
  The instance holds a marker exactly when it is visible, and then this marker is the
  only one that \<open>renderDatatip\<close> has left in the editor.
\<close>

definition markerInv :: "DatatipManagerForEditor \<Rightarrow> bool" where
  "markerInv s \<longleftrightarrow>
     (case marker s of
        None \<Rightarrow> datatipState s \<noteq> VISIBLE \<and> liveMarkers s = []
      | Some m \<Rightarrow> datatipState s = VISIBLE \<and> map fst (liveMarkers s) = [m])"

section \<open>A sample editor, sample providers and sample events\<close>

text \<open>
  An editor whose characters are one pixel wide and whose lines are 80 columns long: the
  mouse at pixel (x, y) is over row y, column x, as long as x is not beyond the line.
\<close>

definition sampleEditor :: TextEditor where
  "sampleEditor =
     \<lparr> editorId = 1,
       viewComponent = Some
         \<lparr> screenPositionForMouseEvent = (\<lambda>e. (clientY e, min (clientX e) 80)),
           pixelPositionForMouseEvent = (\<lambda>e. \<lparr> px_left = clientX e, px_top = clientY e \<rparr>),
           pixelPositionForScreenPosition = (\<lambda>p. \<lparr> px_left = column p, px_top = row p \<rparr>) \<rparr>,
       defaultCharWidth = 1,
       bufferPositionForScreenPosition = (\<lambda>p. p) \<rparr>"

definition worldAt :: "int \<Rightarrow> World" where
  "worldAt t = \<lparr> now = t, cursorScreenPosition = (10, 4), activeTextEditor = Some 1 \<rparr>"

definition mouseAt :: "int \<Rightarrow> int \<Rightarrow> MouseEvent" where
  "mouseAt r c = \<lparr> clientX = c, clientY = r \<rparr>"

definition plainKey :: KeyboardEvent where
  "plainKey = \<lparr> altKey = False, ctrlKey = False, metaKey = False, shiftKey = False \<rparr>"

definition shiftedKey :: KeyboardEvent where
  "shiftedKey = \<lparr> altKey = False, ctrlKey = False, metaKey = False, shiftKey = True \<rparr>"

definition tipOver :: "string \<Rightarrow> Range \<Rightarrow> Datatip" where
  "tipOver c r = \<lparr> dt_component = c, dt_range = r, dt_pinnable = None \<rparr>"

definition providerOf :: "string \<Rightarrow> int \<Rightarrow> (Point \<Rightarrow> FetchError + Datatip option) \<Rightarrow> DatatipProvider" where
  "providerOf name priority f =
     \<lparr> providerName = Some name, inclusionPriority = priority,
       validForScope = (\<lambda>scopeName. scopeName = ''source.js''), datatip = f \<rparr>"

definition providerA :: DatatipProvider where
  "providerA = providerOf ''A'' 2 (\<lambda>p. Inr (Some (tipOver ''A'' (Range (row p, 0) (row p, 3)))))"

definition providerB :: DatatipProvider where
  "providerB = providerOf ''B'' 1 (\<lambda>p. Inr (Some (tipOver ''B'' (Range (row p, 2) (row p, 10)))))"

definition silentProvider :: DatatipProvider where
  "silentProvider = providerOf ''S'' 3 (\<lambda>p. Inr None)"

definition sampleData :: "Point \<Rightarrow> FetchError + CombinedResult option" where
  "sampleData position = fetchDatatip ''source.js'' position [providerA, providerB]"

definition sampleResult :: "int \<Rightarrow> CombinedResult" where
  "sampleResult r =
     \<lparr> data_range = Some (Range (r, 0) (r, 10)),
       data_renderedProviders =
         [\<lparr> rp_key = ''B'', rp_action = Some PIN,
            rp_datatip = tipOver ''B'' (Range (r, 2) (r, 10)) \<rparr>,
          \<lparr> rp_key = ''A'', rp_action = Some PIN,
            rp_datatip = tipOver ''A'' (Range (r, 0) (r, 3)) \<rparr>] \<rparr>"

text \<open>
  Sample histories of an instance.  The toggle command at 200 ms starts a fetch at the
  cursor, (10, 4); the fetch is settled at 300 ms and the datatip is shown; a key
  pressed at 1000 ms hides it.  In the last history the mouse rests at (2, 2), the
  debounce timer starts the fetch, and a key is pressed while the fetch is in flight.
\<close>

definition fetchingState :: DatatipManagerForEditor where
  "fetchingState = run sampleEditor [(worldAt 200, ToggleCommand)] newManager"

definition visibleState :: DatatipManagerForEditor where
  "visibleState =
     run sampleEditor
       [(worldAt 200, ToggleCommand), (worldAt 300, FetchSettled 0 (sampleData (10, 4)))]
       newManager"

definition hiddenAgainState :: DatatipManagerForEditor where
  "hiddenAgainState =
     run sampleEditor
       [(worldAt 200, ToggleCommand), (worldAt 300, FetchSettled 0 (sampleData (10, 4))),
        (worldAt 1000, KeyDown plainKey)]
       newManager"

definition dismissedState :: DatatipManagerForEditor where
  "dismissedState =
     run sampleEditor
       [(worldAt 0, MouseMove (mouseAt 2 2)), (worldAt 50, DebounceFired),
        (worldAt 60, KeyDown plainKey)]
       newManager"

section \<open>Unfolding the definitions on concrete inputs\<close>

lemmas machine_defs =
  step_def onMousemove_def onMousedown_def onKeydown_def onMouseenter_def onMouseleave_def
  onDidChangeScrollTop_def toggleDatatip_def debounceFired_def startFetchingDebounce_def
  startFetching_def finishFetching_def hideOrCancel_def hideIfOutside_def handlePinClicked_def
  setStartFetchingDebounce_def dispose_def setState_def hideDatatip_def renderDatatip_def getPosition_def
  getBufferPosition_def containsPoint_def newManager_def Let_def

lemmas sample_defs =
  sampleEditor_def worldAt_def mouseAt_def plainKey_def shiftedKey_def tipOver_def
  providerOf_def providerA_def providerB_def silentProvider_def

lemmas fetch_defs =
  fetchDatatip_def filterProvidersByScopeName_def queryProvider_def getProviderName_def
  renderProvider_def range_union_def

lemma sampleData_eval: "sampleData (r, c) = Inr (Some (sampleResult r))"
  by (simp add: sampleData_def sampleResult_def fetch_defs sample_defs)

lemmas state_defs =
  fetchingState_def visibleState_def hiddenAgainState_def dismissedState_def
  sampleData_eval sampleResult_def

section \<open>The combined range of a fetch\<close>

lemma rstart_union: "rstart (range_union a b) = min (rstart a) (rstart b)"
  by (auto simp: range_union_def min_def)

lemma rend_union: "rend (range_union a b) = max (rend a) (rend b)"
  by (auto simp: range_union_def max_def)

lemma smallestCover_Cons:
  "smallestCover (r # a # rs) = smallestCover (range_union r a # rs)"
  by (cases rs) (simp_all add: smallestCover_def rstart_union rend_union min.assoc max.assoc)

lemma foldl_addRange_Some:
  "foldl addRange (Some r) rs = Some (smallestCover (r # rs))"
proof (induction rs arbitrary: r)
  case Nil
  show ?case by (cases r) (simp add: smallestCover_def)
next
  case (Cons a rs)
  show ?case by (simp add: Cons.IH smallestCover_Cons)
qed

lemma foldl_addRange_None:
  "rs \<noteq> [] \<Longrightarrow> foldl addRange None rs = Some (smallestCover rs)"
  by (cases rs) (simp_all add: foldl_addRange_Some)

lemma combinedRange_order_irrelevant:
  "set rs = set rs' \<Longrightarrow> foldl addRange None rs = foldl addRange None rs'"
proof (cases "rs = []")
  case True
  assume "set rs = set rs'"
  with True show ?thesis by simp
next
  case False
  assume e: "set rs = set rs'"
  with False have "rs' \<noteq> []" by auto
  with False e show ?thesis
    by (simp add: foldl_addRange_None smallestCover_def)
qed

lemma smallestCover_covers:
  "r \<in> set rs \<Longrightarrow> covers (smallestCover rs) r"
  by (simp add: covers_def smallestCover_def)

lemma smallestCover_least:
  "rs \<noteq> [] \<Longrightarrow> \<forall>r\<in>set rs. covers c r \<Longrightarrow> covers c (smallestCover rs)"
  by (simp add: covers_def smallestCover_def)

lemma promiseAll_queries:
  "\<forall>p \<in> set ps. \<not> isl (datatip p position) \<Longrightarrow>
   \<exists>settled. promiseAll (map (queryProvider position) ps) = Inr settled
      \<and> map snd (arrayCompact settled) = contents position ps"
proof (induction ps)
  case Nil
  show ?case by (simp add: contents_def)
next
  case (Cons p ps)
  then obtain settled where
    s: "promiseAll (map (queryProvider position) ps) = Inr settled"
       "map snd (arrayCompact settled) = contents position ps"
    by auto
  from Cons.prems obtain x where x: "datatip p position = Inr x"
    by (cases "datatip p position") auto
  have c: "contents position (p # ps)
             = (case x of None \<Rightarrow> [] | Some d \<Rightarrow> [d]) @ contents position ps"
    using x by (cases x) (simp_all add: contents_def)
  have q: "queryProvider position p
             = Inr (case x of None \<Rightarrow> None | Some d \<Rightarrow> Some (getProviderName p, d))"
    using x by (cases x) (simp_all add: queryProvider_def)
  show ?case
    by (cases x) (simp_all add: c q s)
qed

lemma fetchDatatip_range:
  assumes "noRejection scopeName position allProviders"
      and "returnedDatatips scopeName position allProviders \<noteq> []"
  shows "\<exists>data. fetchDatatip scopeName position allProviders = Inr (Some data)
           \<and> data_range data =
               Some (smallestCover (map dt_range (returnedDatatips scopeName position allProviders)))"
proof -
  let ?ps = "filterProvidersByScopeName allProviders scopeName"
  from assms(1) obtain settled where
    s: "promiseAll (map (queryProvider position) ?ps) = Inr settled"
       "map snd (arrayCompact settled) = contents position ?ps"
    using promiseAll_queries [of ?ps position] by (auto simp: noRejection_def)
  from assms(2) have ne: "?ps \<noteq> []"
    by (auto simp: returnedDatatips_def contents_def)
  from assms(2) s(2) have tips: "arrayCompact settled \<noteq> []"
    by (auto simp: returnedDatatips_def)
  have m: "map (\<lambda>nd. dt_range (snd nd)) (arrayCompact settled)
             = map dt_range (returnedDatatips scopeName position allProviders)"
    using s(2) by (simp add: returnedDatatips_def flip: map_map [of dt_range snd, unfolded comp_def])
  show ?thesis
    using ne tips assms(2)
    by (simp add: fetchDatatip_def Let_def s(1) m foldl_addRange_None)
qed

lemma promiseAll_nothing:
  "\<forall>p \<in> set ps. datatip p position = Inr None \<Longrightarrow>
   \<exists>settled. promiseAll (map (queryProvider position) ps) = Inr settled
      \<and> arrayCompact settled = []"
  by (induction ps) (auto simp: queryProvider_def)

lemma fetchDatatip_nothing:
  assumes "\<forall>p \<in> set allProviders.
             inclusionPriority p > 0 \<and> validForScope p scopeName \<longrightarrow> datatip p position = Inr None"
  shows "fetchDatatip scopeName position allProviders = Inr None"
proof -
  let ?ps = "filterProvidersByScopeName allProviders scopeName"
  have "\<forall>p \<in> set ?ps. datatip p position = Inr None"
    using assms by (auto simp: filterProvidersByScopeName_def)
  then obtain settled where
    "promiseAll (map (queryProvider position) ?ps) = Inr settled" "arrayCompact settled = []"
    using promiseAll_nothing by blast
  then show ?thesis
    by (simp add: fetchDatatip_def Let_def)
qed

lemma set_returnedDatatips:
  "set (returnedDatatips scopeName position allProviders) =
     {d. \<exists>p \<in> set allProviders. inclusionPriority p > 0 \<and> validForScope p scopeName
           \<and> datatip p position = Inr (Some d)}"
  by (auto simp: returnedDatatips_def contents_def filterProvidersByScopeName_def
           split: sum.splits option.splits)

section \<open>The marker invariant holds in every state an instance can reach\<close>

subsection \<open>setState\<close>

lemma setState_FETCHING: "setState w FETCHING s = s\<lparr> datatipState := FETCHING \<rparr>"
  by (simp add: setState_def)

lemma setState_VISIBLE: "setState w VISIBLE s = s\<lparr> datatipState := VISIBLE \<rparr>"
  by (simp add: setState_def)

lemma setState_HIDDEN_quiet:
  "datatipState s \<noteq> VISIBLE \<Longrightarrow>
   setState w HIDDEN s = s\<lparr> datatipState := HIDDEN, blacklistedPosition := None \<rparr>"
  by (simp add: setState_def)

lemma datatipState_setState [simp]: "datatipState (setState w n s) = n"
  by (simp add: setState_def hideDatatip_def Let_def split: option.splits)

lemma blacklisted_setState_HIDDEN [simp]: "blacklistedPosition (setState w HIDDEN s) = None"
  by (simp add: setState_def hideDatatip_def Let_def split: option.splits)

lemma subscribed_setState [simp]: "subscribed (setState w n s) = subscribed s"
  by (simp add: setState_def hideDatatip_def Let_def split: option.splits)

lemma debouncePending_setState [simp]: "debouncePending (setState w n s) = debouncePending s"
  by (simp add: setState_def hideDatatip_def Let_def split: option.splits)

lemma inflight_setState [simp]: "inflight (setState w n s) = inflight s"
  by (simp add: setState_def hideDatatip_def Let_def split: option.splits)

lemma markerInv_setState_HIDDEN: "markerInv s \<Longrightarrow> markerInv (setState w HIDDEN s)"
  by (auto simp: markerInv_def setState_def hideDatatip_def Let_def split: option.splits)

lemma markerInv_hidden_fields:
  "markerInv s \<Longrightarrow> datatipState s \<noteq> VISIBLE \<Longrightarrow> marker s = None \<and> liveMarkers s = []"
  by (auto simp: markerInv_def split: option.splits)

lemma markerInv_setState_FETCHING:
  "markerInv s \<Longrightarrow> datatipState s = HIDDEN \<Longrightarrow> markerInv (setState w FETCHING s)"
  by (auto simp: markerInv_def setState_FETCHING split: option.splits)

subsection \<open>The invariant, function by function\<close>

lemma markerInv_startFetching: "markerInv s \<Longrightarrow> markerInv (startFetching editor w g s)"
  by (auto simp: startFetching_def Let_def setState_FETCHING markerInv_def split: option.splits)

lemma markerInv_show:
  assumes "markerInv s" "datatipState s \<noteq> VISIBLE"
  shows "markerInv ((snd (renderDatatip r v ((setState w VISIBLE s)\<lparr> shownRange := Some r \<rparr>)))
                      \<lparr> marker := Some (fst (renderDatatip r v ((setState w VISIBLE s)\<lparr> shownRange := Some r \<rparr>))) \<rparr>)"
  using markerInv_hidden_fields [OF assms]
  by (simp add: markerInv_def renderDatatip_def setState_VISIBLE)

lemma markerInv_finishFetching:
  assumes "markerInv s"
  shows "markerInv (finishFetching editor w g settled s)"
proof (cases "datatipState s = FETCHING")
  case True
  then have n: "datatipState s \<noteq> VISIBLE" by simp
  show ?thesis
    using assms True markerInv_show [OF assms n]
    by (simp add: finishFetching_def Let_def markerInv_setState_HIDDEN
             split: sum.splits option.splits)
next
  case False
  let ?s1 = "setState w HIDDEN s"
  have i1: "markerInv ?s1"
    using assms by (rule markerInv_setState_HIDDEN)
  have n1: "datatipState ?s1 \<noteq> VISIBLE" by simp
  show ?thesis
    using assms False i1 markerInv_show [OF i1 n1] markerInv_setState_HIDDEN [OF i1]
    by (simp add: finishFetching_def Let_def split: sum.splits option.splits)
qed

lemma markerInv_hideOrCancel: "markerInv s \<Longrightarrow> markerInv (hideOrCancel editor w s)"
  by (auto simp: hideOrCancel_def markerInv_setState_HIDDEN)
     (simp_all add: markerInv_def split: option.splits)

lemma markerInv_hideIfOutside: "markerInv s \<Longrightarrow> markerInv (hideIfOutside editor w s)"
  by (simp add: hideIfOutside_def markerInv_setState_HIDDEN split: option.splits)

lemma markerInv_field_updates:
  "markerInv (s\<lparr> lastMoveEvent := e \<rparr>) = markerInv s"
  "markerInv (s\<lparr> insideDatatip := b \<rparr>) = markerInv s"
  "markerInv (s\<lparr> debouncePending := b \<rparr>) = markerInv s"
  "markerInv (s\<lparr> inflight := fs \<rparr>) = markerInv s"
  "markerInv (s\<lparr> subscribed := b \<rparr>) = markerInv s"
  "markerInv (s\<lparr> pinnedDatatips := ps \<rparr>) = markerInv s"
  by (simp_all add: markerInv_def split: option.splits)

lemma markerInv_step: "markerInv s \<Longrightarrow> markerInv (step editor w ev s)"
proof (cases ev)
  case (MouseMove e)
  assume "markerInv s"
  then show ?thesis
    by (simp add: MouseMove step_def onMousemove_def Let_def startFetchingDebounce_def
          markerInv_hideIfOutside markerInv_field_updates)
next
  case (MouseDown p)
  assume "markerInv s"
  then show ?thesis
    by (simp add: MouseDown step_def onMousedown_def markerInv_hideOrCancel)
next
  case (KeyDown e)
  assume "markerInv s"
  then show ?thesis
    by (simp add: KeyDown step_def onKeydown_def markerInv_hideOrCancel)
next
  case MouseEnter
  assume "markerInv s"
  then show ?thesis
    by (simp add: MouseEnter step_def onMouseenter_def markerInv_hideIfOutside
          markerInv_field_updates)
next
  case MouseLeave
  assume "markerInv s"
  then show ?thesis
    by (simp add: MouseLeave step_def onMouseleave_def markerInv_hideIfOutside
          markerInv_field_updates)
next
  case ScrollTopChanged
  assume "markerInv s"
  then show ?thesis
    by (simp add: ScrollTopChanged step_def onDidChangeScrollTop_def Let_def
          markerInv_setState_HIDDEN markerInv_field_updates)
next
  case ToggleCommand
  assume "markerInv s"
  then show ?thesis
    by (simp add: ToggleCommand step_def toggleDatatip_def markerInv_startFetching)
next
  case DebounceDelayChanged
  assume "markerInv s"
  then show ?thesis
    by (simp add: DebounceDelayChanged step_def setStartFetchingDebounce_def)
next
  case DebounceFired
  assume "markerInv s"
  then show ?thesis
    by (simp add: DebounceFired step_def debounceFired_def markerInv_startFetching
          markerInv_field_updates)
next
  case (FetchSettled i settled)
  assume "markerInv s"
  then show ?thesis
    by (simp add: FetchSettled step_def markerInv_finishFetching markerInv_field_updates)
next
  case (PinClicked i)
  assume "markerInv s"
  then show ?thesis
    by (simp add: PinClicked step_def handlePinClicked_def Let_def markerInv_setState_HIDDEN
          markerInv_field_updates split: option.splits)
next
  case Dispose
  assume "markerInv s"
  then show ?thesis
    by (simp add: Dispose step_def dispose_def markerInv_setState_HIDDEN markerInv_field_updates)
qed

lemma markerInv_run: "markerInv s \<Longrightarrow> markerInv (run editor tr s)"
  by (induction tr arbitrary: s) (simp_all add: markerInv_step)

lemma markerInv_newManager: "markerInv newManager"
  by (simp add: markerInv_def newManager_def)

lemma markerInv_reachable: "markerInv (run editor tr newManager)"
  by (simp add: markerInv_run markerInv_newManager)

section \<open>After the subscriptions are disposed\<close>

lemma subscribed_startFetching: "subscribed (startFetching editor w g s) = subscribed s"
  by (simp add: startFetching_def Let_def split: option.splits)

lemma subscribed_finishFetching: "subscribed (finishFetching editor w g settled s) = subscribed s"
  by (simp add: finishFetching_def Let_def renderDatatip_def split: sum.splits option.splits)

lemma unsubscribed_step: "\<not> subscribed s \<Longrightarrow> \<not> subscribed (step editor w ev s)"
  by (cases ev)
     (simp_all add: step_def debounceFired_def subscribed_startFetching
        subscribed_finishFetching handlePinClicked_def dispose_def Let_def split: option.splits)

lemma unsubscribed_run: "\<not> subscribed s \<Longrightarrow> \<not> subscribed (run editor tr s)"
  by (induction tr arbitrary: s) (simp_all add: unsubscribed_step)

lemma unsubscribed_ignores:
  "\<not> subscribed s \<Longrightarrow> isSubscription ev \<Longrightarrow> step editor w ev s = s"
  by (cases ev) (simp_all add: step_def isSubscription_def)

section \<open>The claims\<close>

text \<open>
  C1.  A completion that finds the instance away from FETCHING is not discarded.  The
  toggle command starts a fetch at the cursor, (10, 4); \<open>dispose\<close> sets the instance to
  HIDDEN while the fetch is in flight; the fetch is then settled with a result whose range
  contains the cursor.  The stale check of \<open>_startFetching\<close> sets HIDDEN once more and
  goes on: the instance ends VISIBLE, with a marker in the editor.
\<close>

theorem stale_completion_shows_datatip:
  "datatipState (run sampleEditor [(worldAt 200, ToggleCommand), (worldAt 250, Dispose)] newManager)
     = HIDDEN
   \<and> inflight (run sampleEditor [(worldAt 200, ToggleCommand), (worldAt 250, Dispose)] newManager)
       = [(FromCursor, (10, 4))]
   \<and> datatipState
        (run sampleEditor
           [(worldAt 200, ToggleCommand), (worldAt 250, Dispose),
            (worldAt 300, FetchSettled 0 (sampleData (10, 4)))] newManager) = VISIBLE
   \<and> liveMarkers
        (run sampleEditor
           [(worldAt 200, ToggleCommand), (worldAt 250, Dispose),
            (worldAt 300, FetchSettled 0 (sampleData (10, 4)))] newManager)
       = [(0, Range (10, 0) (10, 10))]"
  by (simp add: machine_defs sample_defs state_defs)

text \<open>
  C2.  When a fetch is settled with a result while the instance is FETCHING and the
  blacklisted position is set and lies in the range of the result, the instance becomes
  HIDDEN, the blacklisted position is cleared and nothing else changes: no marker is made.
\<close>

theorem blacklisted_result_hides:
  assumes "datatipState s = FETCHING"
      and "blacklistedPosition s = Some b"
      and "data_range data = Some r"
      and "containsPoint r b"
  shows "finishFetching editor w g (Inr (Some data)) s
           = s\<lparr> datatipState := HIDDEN, blacklistedPosition := None \<rparr>
         \<and> datatipState (finishFetching editor w g (Inr (Some data)) s) = HIDDEN
         \<and> marker (finishFetching editor w g (Inr (Some data)) s) = marker s
         \<and> liveMarkers (finishFetching editor w g (Inr (Some data)) s) = liveMarkers s
         \<and> (\<forall>i. i < length (inflight s) \<longrightarrow>
               datatipState (step editor w (FetchSettled i (Inr (Some data))) s) = HIDDEN
               \<and> marker (step editor w (FetchSettled i (Inr (Some data))) s) = marker s
               \<and> liveMarkers (step editor w (FetchSettled i (Inr (Some data))) s)
                   = liveMarkers s)"
  using assms by (simp add: step_def finishFetching_def setState_HIDDEN_quiet)

text \<open>
  The mouse rests at (2, 2), the fetch starts there, a key is pressed while it is in
  flight, and the fetch is settled with the range (2,0)-(2,10), which also contains the
  position of the mouse.
\<close>

theorem blacklisted_result_hides_witness:
  "datatipState dismissedState = FETCHING
   \<and> blacklistedPosition dismissedState = Some (2, 2)
   \<and> data_range (sampleResult 2) = Some (Range (2, 0) (2, 10))
   \<and> containsPoint (Range (2, 0) (2, 10)) (2, 2)
   \<and> getPosition sampleEditor (worldAt 300) FromLastMoveEvent dismissedState = Some (2, 2)
   \<and> datatipState (finishFetching sampleEditor (worldAt 300) FromLastMoveEvent
                      (Inr (Some (sampleResult 2))) dismissedState) = HIDDEN
   \<and> marker (finishFetching sampleEditor (worldAt 300) FromLastMoveEvent
                      (Inr (Some (sampleResult 2))) dismissedState) = None
   \<and> inflight dismissedState = [(FromLastMoveEvent, (2, 2))]
   \<and> datatipState (step sampleEditor (worldAt 300) (FetchSettled 0 (sampleData (2, 2)))
                      dismissedState) = HIDDEN"
proof -
  have h: "datatipState dismissedState = FETCHING"
          "blacklistedPosition dismissedState = Some (2, 2)"
          "marker dismissedState = None"
          "getPosition sampleEditor (worldAt 300) FromLastMoveEvent dismissedState = Some (2, 2)"
          "inflight dismissedState = [(FromLastMoveEvent, (2, 2))]"
    by (simp_all add: machine_defs sample_defs state_defs)
  have r: "data_range (sampleResult 2) = Some (Range (2, 0) (2, 10))"
    by (simp add: sampleResult_def)
  have c: "containsPoint (Range (2, 0) (2, 10)) (2, 2)"
    by (simp add: containsPoint_def)
  show ?thesis
    using blacklisted_result_hides [OF h(1) h(2) r c, of sampleEditor "worldAt 300" FromLastMoveEvent]
          h r c
    by (simp add: sampleData_eval)
qed

text \<open>
  C3.  In every state that an instance reaches from its construction, by any sequence of
  events, it holds a marker exactly when it is VISIBLE; the markers it has left in the
  editor are that marker and no other, so there is at most one; and every event that takes
  it from VISIBLE to HIDDEN leaves no marker.
\<close>

theorem marker_exists_iff_visible:
  "(marker (run editor tr newManager) \<noteq> None
      \<longleftrightarrow> datatipState (run editor tr newManager) = VISIBLE)
   \<and> map fst (liveMarkers (run editor tr newManager))
       = (case marker (run editor tr newManager) of None \<Rightarrow> [] | Some m \<Rightarrow> [m])
   \<and> length (liveMarkers (run editor tr newManager)) \<le> 1
   \<and> (\<forall>w ev. datatipState (run editor tr newManager) = VISIBLE
            \<and> datatipState (step editor w ev (run editor tr newManager)) = HIDDEN
          \<longrightarrow> marker (step editor w ev (run editor tr newManager)) = None
            \<and> liveMarkers (step editor w ev (run editor tr newManager)) = [])"
proof -
  let ?s = "run editor tr newManager"
  have i: "markerInv ?s" by (rule markerInv_reachable)
  have a: "(marker ?s \<noteq> None \<longleftrightarrow> datatipState ?s = VISIBLE)
           \<and> map fst (liveMarkers ?s) = (case marker ?s of None \<Rightarrow> [] | Some m \<Rightarrow> [m])"
    using i by (auto simp: markerInv_def split: option.splits)
  then have b: "length (liveMarkers ?s) \<le> 1"
    by (cases "marker ?s") (simp_all flip: length_map [of fst "liveMarkers ?s"])
  have c: "marker (step editor w ev ?s) = None \<and> liveMarkers (step editor w ev ?s) = []"
    if "datatipState (step editor w ev ?s) = HIDDEN" for w ev
    using markerInv_step [OF i, of editor w ev] that
    by (auto simp: markerInv_def split: option.splits)
  show ?thesis using a b c by blast
qed

text \<open>
  The visible sample state holds marker 0, and a key pressed then hides the datatip and
  destroys the marker.
\<close>

theorem marker_exists_iff_visible_witness:
  "datatipState visibleState = VISIBLE
   \<and> marker visibleState = Some 0
   \<and> liveMarkers visibleState = [(0, Range (10, 0) (10, 10))]
   \<and> datatipState (step sampleEditor (worldAt 1000) (KeyDown plainKey) visibleState) = HIDDEN
   \<and> marker (step sampleEditor (worldAt 1000) (KeyDown plainKey) visibleState) = None
   \<and> liveMarkers (step sampleEditor (worldAt 1000) (KeyDown plainKey) visibleState) = []"
proof -
  have v: "datatipState visibleState = VISIBLE" "marker visibleState = Some 0"
          "liveMarkers visibleState = [(0, Range (10, 0) (10, 10))]"
    by (simp_all add: machine_defs sample_defs state_defs)
  have h: "datatipState (step sampleEditor (worldAt 1000) (KeyDown plainKey) visibleState) = HIDDEN"
    by (simp add: machine_defs sample_defs state_defs)
  show ?thesis
    using marker_exists_iff_visible
            [of sampleEditor
                "[(worldAt 200, ToggleCommand), (worldAt 300, FetchSettled 0 (sampleData (10, 4)))]",
             folded visibleState_def]
          v h
    by blast
qed

text \<open>
  C4.  When none of the queried providers rejects and at least one of them resolves with a
  datatip, \<open>fetchDatatip\<close> resolves with a result whose range is the union of the ranges
  of all the datatips returned: the range from the least start to the greatest end, which
  covers each of them and is covered by every range that covers each of them.
\<close>

theorem fetchDatatip_combinedRange_is_union:
  assumes "noRejection scopeName position allProviders"
      and "returnedDatatips scopeName position allProviders \<noteq> []"
  shows "\<exists>data. fetchDatatip scopeName position allProviders = Inr (Some data)
           \<and> data_range data =
               Some (smallestCover (map dt_range (returnedDatatips scopeName position allProviders)))
           \<and> (\<forall>d \<in> set (returnedDatatips scopeName position allProviders).
                 covers (smallestCover (map dt_range (returnedDatatips scopeName position allProviders)))
                   (dt_range d))
           \<and> (\<forall>c. (\<forall>d \<in> set (returnedDatatips scopeName position allProviders).
                       covers c (dt_range d))
                 \<longrightarrow> covers c (smallestCover
                                 (map dt_range (returnedDatatips scopeName position allProviders))))"
proof -
  let ?rs = "map dt_range (returnedDatatips scopeName position allProviders)"
  have ne: "?rs \<noteq> []" using assms(2) by simp
  have up: "\<forall>d \<in> set (returnedDatatips scopeName position allProviders).
              covers (smallestCover ?rs) (dt_range d)"
    by (simp add: smallestCover_covers)
  have least: "\<forall>c. (\<forall>d \<in> set (returnedDatatips scopeName position allProviders).
                   covers c (dt_range d)) \<longrightarrow> covers c (smallestCover ?rs)"
    using smallestCover_least [OF ne] by simp
  from fetchDatatip_range [OF assms] up least show ?thesis by blast
qed

text \<open>
  Three providers, one of them without a datatip, at row 5: the ranges (5,2)-(5,10) and
  (5,0)-(5,3) are combined into (5,0)-(5,10).
\<close>

theorem fetchDatatip_combinedRange_is_union_witness:
  "noRejection ''source.js'' (5, 1) [providerA, silentProvider, providerB]
   \<and> returnedDatatips ''source.js'' (5, 1) [providerA, silentProvider, providerB]
       = [tipOver ''B'' (Range (5, 2) (5, 10)), tipOver ''A'' (Range (5, 0) (5, 3))]
   \<and> (\<exists>data. fetchDatatip ''source.js'' (5, 1) [providerA, silentProvider, providerB] = Inr (Some data)
         \<and> data_range data = Some (Range (5, 0) (5, 10)))"
proof -
  have r: "returnedDatatips ''source.js'' (5, 1) [providerA, silentProvider, providerB]
             = [tipOver ''B'' (Range (5, 2) (5, 10)), tipOver ''A'' (Range (5, 0) (5, 3))]"
    by (simp add: returnedDatatips_def contents_def filterProvidersByScopeName_def sample_defs)
  have n: "noRejection ''source.js'' (5, 1) [providerA, silentProvider, providerB]"
    by (simp add: noRejection_def filterProvidersByScopeName_def sample_defs)
  have c: "smallestCover [Range (5, 2) (5, 10), Range (5, 0) (5, 3)] = Range (5, 0) (5, 10)"
    by (simp add: smallestCover_def)
  show ?thesis
    using fetchDatatip_combinedRange_is_union
            [of "''source.js''" "(5, 1)" "[providerA, silentProvider, providerB]"] n r c
    by (auto simp: tipOver_def)
qed

text \<open>
  C5, as the claim states it, fails: \<open>dispose\<close> does not stop the timer of the debounce.
  The mouse moves over (10, 4) and leaves the timer running; the instance is disposed; the
  timer is still running, fires, and starts a fetch; the fetch is settled and the disposed
  instance shows a datatip, with a marker in the editor.
\<close>

theorem dispose_leaves_debounce_timer_counterexample:
  "debouncePending (step sampleEditor (worldAt 0) (MouseMove (mouseAt 10 4)) newManager)
   \<and> debouncePending
        (run sampleEditor [(worldAt 0, MouseMove (mouseAt 10 4)), (worldAt 10, Dispose)] newManager)
   \<and> datatipState
        (run sampleEditor
           [(worldAt 0, MouseMove (mouseAt 10 4)), (worldAt 10, Dispose),
            (worldAt 20, DebounceFired)] newManager) = FETCHING
   \<and> inflight
        (run sampleEditor
           [(worldAt 0, MouseMove (mouseAt 10 4)), (worldAt 10, Dispose),
            (worldAt 20, DebounceFired)] newManager) = [(FromLastMoveEvent, (10, 4))]
   \<and> datatipState
        (run sampleEditor
           [(worldAt 0, MouseMove (mouseAt 10 4)), (worldAt 10, Dispose),
            (worldAt 20, DebounceFired),
            (worldAt 30, FetchSettled 0 (sampleData (10, 4)))] newManager) = VISIBLE
   \<and> liveMarkers
        (run sampleEditor
           [(worldAt 0, MouseMove (mouseAt 10 4)), (worldAt 10, Dispose),
            (worldAt 20, DebounceFired),
            (worldAt 30, FetchSettled 0 (sampleData (10, 4)))] newManager)
       = [(0, Range (10, 0) (10, 10))]"
  by (simp add: machine_defs sample_defs state_defs)

text \<open>
  C5, amended.  In every state that an instance reaches, \<open>dispose\<close> sets it to HIDDEN,
  clears the blacklisted position, leaves no marker, and disposes the subscriptions, after
  which no callback of a subscription changes the instance any more, whatever happens in
  between; the timer of the debounce is left as it is.
\<close>

theorem dispose_tears_down_marker_and_subscriptions:
  "datatipState (dispose w (run editor tr newManager)) = HIDDEN
   \<and> blacklistedPosition (dispose w (run editor tr newManager)) = None
   \<and> marker (dispose w (run editor tr newManager)) = None
   \<and> liveMarkers (dispose w (run editor tr newManager)) = []
   \<and> \<not> subscribed (dispose w (run editor tr newManager))
   \<and> debouncePending (dispose w (run editor tr newManager))
       = debouncePending (run editor tr newManager)
   \<and> (\<forall>tr' w' ev. isSubscription ev \<longrightarrow>
         step editor w' ev (run editor tr' (dispose w (run editor tr newManager)))
           = run editor tr' (dispose w (run editor tr newManager)))"
proof -
  let ?s = "run editor tr newManager"
  have i: "markerInv (dispose w ?s)"
    using markerInv_setState_HIDDEN [OF markerInv_reachable, of w editor tr]
    by (simp add: dispose_def markerInv_field_updates)
  have st: "datatipState (dispose w ?s) = HIDDEN"
    by (simp add: dispose_def)
  have m: "marker (dispose w ?s) = None \<and> liveMarkers (dispose w ?s) = []"
    using i st by (auto simp: markerInv_def split: option.splits)
  have u: "\<not> subscribed (dispose w ?s)"
    by (simp add: dispose_def)
  have later: "step editor w' ev (run editor tr' (dispose w ?s)) = run editor tr' (dispose w ?s)"
    if "isSubscription ev" for tr' w' ev
    using unsubscribed_ignores [OF unsubscribed_run [OF u] that] .
  show ?thesis
    using st m u later by (simp add: dispose_def)
qed

text \<open>
  The visible sample state, disposed: marker 0 is destroyed, and a later mouse move
  changes nothing.
\<close>

theorem dispose_tears_down_marker_and_subscriptions_witness:
  "marker visibleState = Some 0
   \<and> liveMarkers visibleState = [(0, Range (10, 0) (10, 10))]
   \<and> datatipState (dispose (worldAt 1500) visibleState) = HIDDEN
   \<and> marker (dispose (worldAt 1500) visibleState) = None
   \<and> liveMarkers (dispose (worldAt 1500) visibleState) = []
   \<and> \<not> subscribed (dispose (worldAt 1500) visibleState)
   \<and> isSubscription (MouseMove (mouseAt 1 1))
   \<and> step sampleEditor (worldAt 2000) (MouseMove (mouseAt 1 1))
         (run sampleEditor [] (dispose (worldAt 1500) visibleState))
       = run sampleEditor [] (dispose (worldAt 1500) visibleState)"
proof -
  have v: "marker visibleState = Some 0"
          "liveMarkers visibleState = [(0, Range (10, 0) (10, 10))]"
    by (simp_all add: machine_defs sample_defs state_defs)
  have e: "isSubscription (MouseMove (mouseAt 1 1))"
    by (simp add: isSubscription_def)
  show ?thesis
    using dispose_tears_down_marker_and_subscriptions
            [of "worldAt 1500" sampleEditor
                "[(worldAt 200, ToggleCommand), (worldAt 300, FetchSettled 0 (sampleData (10, 4)))]",
             folded visibleState_def]
          v e
    by blast
qed

text \<open>
  C6, as the claim states it, fails at exactly 100 ms: the datatip of the sample history
  was hidden at 1000 ms, and the toggle command at 1100 ms, when 100 ms have elapsed,
  starts no fetch.
\<close>

theorem toggle_at_100ms_counterexample:
  "datatipState hiddenAgainState = HIDDEN
   \<and> lastHiddenTime hiddenAgainState = 1000
   \<and> now (worldAt 1100) - lastHiddenTime hiddenAgainState = 100
   \<and> activeTextEditor (worldAt 1100) = Some (editorId sampleEditor)
   \<and> datatipState (step sampleEditor (worldAt 1100) ToggleCommand hiddenAgainState) = HIDDEN
   \<and> inflight (step sampleEditor (worldAt 1100) ToggleCommand hiddenAgainState) = []"
  by (simp add: machine_defs sample_defs state_defs)

text \<open>
  C6, amended.  The toggle command on the active editor's instance, while it is HIDDEN,
  starts a fetch at the cursor position when more than 100 ms have elapsed since the
  datatip was last hidden, and changes nothing otherwise.
\<close>

theorem toggle_starts_fetch_after_100ms:
  assumes "activeTextEditor w = Some (editorId editor)"
      and "datatipState s = HIDDEN"
  shows "toggleDatatip editor w s =
           (if now w - lastHiddenTime s > 100
            then s\<lparr> datatipState := FETCHING,
                    inflight := inflight s @ [(FromCursor, cursorScreenPosition w)] \<rparr>
            else s)"
  using assms
  by (simp add: toggleDatatip_def startFetching_def getPosition_def setState_FETCHING Let_def)

text \<open>
  The datatip was hidden at 1000 ms: the toggle command at 1100 ms changes nothing, the
  toggle command at 1101 ms starts a fetch at the cursor, (10, 4).
\<close>

theorem toggle_starts_fetch_after_100ms_witness:
  "activeTextEditor (worldAt 1101) = Some (editorId sampleEditor)
   \<and> activeTextEditor (worldAt 1100) = Some (editorId sampleEditor)
   \<and> datatipState hiddenAgainState = HIDDEN
   \<and> lastHiddenTime hiddenAgainState = 1000
   \<and> toggleDatatip sampleEditor (worldAt 1100) hiddenAgainState = hiddenAgainState
   \<and> toggleDatatip sampleEditor (worldAt 1101) hiddenAgainState
       = hiddenAgainState\<lparr> datatipState := FETCHING, inflight := [(FromCursor, (10, 4))] \<rparr>"
proof -
  have a: "activeTextEditor (worldAt 1101) = Some (editorId sampleEditor)"
          "activeTextEditor (worldAt 1100) = Some (editorId sampleEditor)"
    by (simp_all add: sample_defs)
  have h: "datatipState hiddenAgainState = HIDDEN" "lastHiddenTime hiddenAgainState = 1000"
          "inflight hiddenAgainState = []"
    by (simp_all add: machine_defs sample_defs state_defs)
  have n: "now (worldAt 1100) = 1100" "now (worldAt 1101) = 1101"
          "cursorScreenPosition (worldAt 1101) = (10, 4)"
    by (simp_all add: worldAt_def)
  show ?thesis
    using toggle_starts_fetch_after_100ms [OF a(1) h(1)]
          toggle_starts_fetch_after_100ms [OF a(2) h(1)] a h n
    by simp
qed

text \<open>
  C7.  When no provider has a positive priority and is valid for the scope, or every such
  provider resolves with no datatip, \<open>fetchDatatip\<close> resolves with null, not with an
  error, and the continuation of \<open>_startFetching\<close> leaves the instance hidden.
\<close>

theorem no_content_returns_to_hidden:
  assumes "(\<forall>p \<in> set allProviders. \<not> (inclusionPriority p > 0 \<and> validForScope p scopeName))
           \<or> (\<forall>p \<in> set allProviders. inclusionPriority p > 0 \<and> validForScope p scopeName
                  \<longrightarrow> datatip p position = Inr None)"
  shows "fetchDatatip scopeName position allProviders = Inr None
         \<and> datatipState (finishFetching editor w g
                            (fetchDatatip scopeName position allProviders) s) = HIDDEN"
proof -
  from assms have "\<forall>p \<in> set allProviders.
      inclusionPriority p > 0 \<and> validForScope p scopeName \<longrightarrow> datatip p position = Inr None"
    by blast
  then have "fetchDatatip scopeName position allProviders = Inr None"
    by (rule fetchDatatip_nothing)
  then show ?thesis
    by (simp add: finishFetching_def)
qed

text \<open>
  A provider without a datatip in its own scope, and a provider asked in another scope.
\<close>

theorem no_content_returns_to_hidden_witness:
  "datatip silentProvider (10, 4) = Inr None
   \<and> \<not> validForScope providerA ''text.plain''
   \<and> fetchDatatip ''source.js'' (10, 4) [silentProvider] = Inr None
   \<and> fetchDatatip ''text.plain'' (10, 4) [providerA] = Inr None
   \<and> datatipState (run sampleEditor [(worldAt 200, ToggleCommand)] newManager) = FETCHING
   \<and> datatipState (finishFetching sampleEditor (worldAt 300) FromCursor
         (fetchDatatip ''source.js'' (10, 4) [silentProvider])
         (run sampleEditor [(worldAt 200, ToggleCommand)] newManager)) = HIDDEN"
  using no_content_returns_to_hidden
          [of "[silentProvider]" "''source.js''" "(10, 4)" sampleEditor "worldAt 300" FromCursor
              "run sampleEditor [(worldAt 200, ToggleCommand)] newManager"]
        no_content_returns_to_hidden
          [of "[providerA]" "''text.plain''" "(10, 4)" sampleEditor "worldAt 300" FromCursor
              "run sampleEditor [(worldAt 200, ToggleCommand)] newManager"]
  by (simp add: sample_defs machine_defs)

text \<open>
  C8.  \<open>createPinnedDataTip\<close> of the registry throws the "no datatip manager" error for an
  editor without an instance, so that no pinned datatip is made, and returns the pinned
  datatip made by the editor's instance otherwise.
\<close>

theorem createPinnedDataTip_needs_manager:
  "(editorManagers reg editor = None \<longrightarrow>
      createPinnedDataTip reg component r pinnable editor =
        Inl (Error ''Trying to create a pinned data tip on an editor that has no datatip manager''))
   \<and> (\<forall>manager. editorManagers reg editor = Some manager \<longrightarrow>
        createPinnedDataTip reg component r pinnable editor =
          Inr (createPinnedDataTip_forEditor manager component r pinnable editor))"
  by (simp add: createPinnedDataTip_def)

text \<open>
  A registry that has seen editor 1 only, asked for editor 2 and for editor 1.
\<close>

theorem createPinnedDataTip_needs_manager_witness:
  "editorManagers (onTextEditor 1 newDatatipManager) 2 = None
   \<and> isl (createPinnedDataTip (onTextEditor 1 newDatatipManager) ''A'' (Range (1, 0) (1, 4)) None 2)
   \<and> editorManagers (onTextEditor 1 newDatatipManager) 1 = Some newManager
   \<and> createPinnedDataTip (onTextEditor 1 newDatatipManager) ''A'' (Range (1, 0) (1, 4)) None 1 =
       Inr \<lparr> pinned_datatip = tipOver ''A'' (Range (1, 0) (1, 4)), pinned_editor = 1 \<rparr>"
  using createPinnedDataTip_needs_manager
          [of "onTextEditor 1 newDatatipManager" 2 "''A''" "Range (1, 0) (1, 4)" None]
        createPinnedDataTip_needs_manager
          [of "onTextEditor 1 newDatatipManager" 1 "''A''" "Range (1, 0) (1, 4)" None]
  by (simp add: onTextEditor_def newDatatipManager_def createPinnedDataTip_forEditor_def
        tipOver_def)

text \<open>
  C9.  A keydown with alt, ctrl, meta or shift leaves the whole instance as it is, and so
  its state, its marker and its blacklisted position; a keydown without any of them is
  \<open>_hideOrCancel\<close>.
\<close>

theorem keydown_with_modifier_changes_nothing:
  "(altKey e \<or> ctrlKey e \<or> metaKey e \<or> shiftKey e \<longrightarrow>
      onKeydown editor w e s = s \<and> step editor w (KeyDown e) s = s)
   \<and> (\<not> (altKey e \<or> ctrlKey e \<or> metaKey e \<or> shiftKey e) \<longrightarrow>
      onKeydown editor w e s = hideOrCancel editor w s)"
  by (simp add: onKeydown_def step_def)

text \<open>
  On the visible sample state a shifted key changes nothing and a plain key hides the
  datatip.
\<close>

theorem keydown_with_modifier_changes_nothing_witness:
  "shiftKey shiftedKey
   \<and> step sampleEditor (worldAt 1000) (KeyDown shiftedKey) visibleState = visibleState
   \<and> datatipState visibleState = VISIBLE
   \<and> \<not> (altKey plainKey \<or> ctrlKey plainKey \<or> metaKey plainKey \<or> shiftKey plainKey)
   \<and> onKeydown sampleEditor (worldAt 1000) plainKey visibleState
       = hideOrCancel sampleEditor (worldAt 1000) visibleState
   \<and> datatipState (onKeydown sampleEditor (worldAt 1000) plainKey visibleState) = HIDDEN"
proof -
  have k: "shiftKey shiftedKey"
          "\<not> (altKey plainKey \<or> ctrlKey plainKey \<or> metaKey plainKey \<or> shiftKey plainKey)"
    by (simp_all add: shiftedKey_def plainKey_def)
  have v: "datatipState visibleState = VISIBLE"
    by (simp add: machine_defs sample_defs state_defs)
  have h: "datatipState (hideOrCancel sampleEditor (worldAt 1000) visibleState) = HIDDEN"
    using v by (simp add: hideOrCancel_def)
  show ?thesis
    using keydown_with_modifier_changes_nothing [of shiftedKey sampleEditor "worldAt 1000" visibleState]
          keydown_with_modifier_changes_nothing [of plainKey sampleEditor "worldAt 1000" visibleState]
          k v h
    by simp
qed

text \<open>
  C10.  While the instance is HIDDEN, \<open>_hideOrCancel\<close> stores the buffer position of the
  last mouse move as the blacklisted position and changes nothing else, so the instance
  stays HIDDEN; a mousedown outside the datatip element and a keydown without modifier are
  \<open>_hideOrCancel\<close>.
\<close>

theorem dismiss_while_hidden_records_position:
  assumes "datatipState s = HIDDEN"
  shows "hideOrCancel editor w s
           = s\<lparr> blacklistedPosition := getBufferPosition editor (lastMoveEvent s) \<rparr>
         \<and> datatipState (hideOrCancel editor w s) = HIDDEN
         \<and> (\<not> reachesDatatipElement targetPath \<longrightarrow>
              onMousedown editor w targetPath s = hideOrCancel editor w s)
         \<and> (\<not> (altKey e \<or> ctrlKey e \<or> metaKey e \<or> shiftKey e) \<longrightarrow>
              onKeydown editor w e s = hideOrCancel editor w s)"
  using assms by (simp add: hideOrCancel_def onMousedown_def onKeydown_def)

text \<open>
  The mouse has moved over (2, 2) and the instance is still hidden: a mousedown on the
  text, or a plain key, blacklists (2, 2).
\<close>

theorem dismiss_while_hidden_records_position_witness:
  "datatipState (step sampleEditor (worldAt 0) (MouseMove (mouseAt 2 2)) newManager) = HIDDEN
   \<and> getBufferPosition sampleEditor
        (lastMoveEvent (step sampleEditor (worldAt 0) (MouseMove (mouseAt 2 2)) newManager))
       = Some (2, 2)
   \<and> \<not> reachesDatatipElement [OtherNode 7, OtherNode 1]
   \<and> blacklistedPosition
        (onMousedown sampleEditor (worldAt 5) [OtherNode 7, OtherNode 1]
           (step sampleEditor (worldAt 0) (MouseMove (mouseAt 2 2)) newManager)) = Some (2, 2)
   \<and> datatipState
        (onMousedown sampleEditor (worldAt 5) [OtherNode 7, OtherNode 1]
           (step sampleEditor (worldAt 0) (MouseMove (mouseAt 2 2)) newManager)) = HIDDEN
   \<and> blacklistedPosition
        (onKeydown sampleEditor (worldAt 5) plainKey
           (step sampleEditor (worldAt 0) (MouseMove (mouseAt 2 2)) newManager)) = Some (2, 2)"
proof -
  let ?s = "step sampleEditor (worldAt 0) (MouseMove (mouseAt 2 2)) newManager"
  have h: "datatipState ?s = HIDDEN"
    by (simp add: machine_defs sample_defs)
  have p: "getBufferPosition sampleEditor (lastMoveEvent ?s) = Some (2, 2)"
    by (simp add: machine_defs sample_defs)
  have t: "\<not> reachesDatatipElement [OtherNode 7, OtherNode 1]"
    by simp
  have k: "\<not> (altKey plainKey \<or> ctrlKey plainKey \<or> metaKey plainKey \<or> shiftKey plainKey)"
    by (simp add: plainKey_def)
  show ?thesis
    using dismiss_while_hidden_records_position
            [OF h, of sampleEditor "worldAt 5" "[OtherNode 7, OtherNode 1]" plainKey] h p t k
    by simp
qed

end
